theory Spec2Isabelle
  imports Complex_Main
begin

section \<open>The MLX Llama wrapper (backend/mlx_transformer.py)\<close>

text \<open>
  The module is a thin layer over an external library: every operation prints, calls a
  routine of \<^verbatim>\<open>mlx_lm\<close> or of the tokenizer, and hands the result on. The embedding
  makes both kinds of effect explicit. Each operation returns the list of events it
  performed, in program order, together with its result; a result is either an exception
  (\<open>Inl\<close>) or a value (\<open>Inr\<close>). The external routines are fields of an environment
  record, so that any stub can be put in their place.
\<close>

subsection \<open>Python values, exceptions, events\<close>

text \<open>
  A chat message is a Python dict with string keys and string values; insertion order is
  kept, so it is an association list.
\<close>

type_synonym message = "(string \<times> string) list"

text \<open>
  The values passed to the external routines. The model and tokenizer handles are opaque
  to this layer, hence type parameters. A Python float is only ever passed on here, never
  computed with, so it is carried as the number its literal denotes.
\<close>

datatype ('m, 't) pyval =
    PStr string
  | PInt int
  | PFloat real
  | PBool bool
  | PModel 'm
  | PTokenizer 't
  | PMessages "message list"

type_synonym ('m, 't) args = "('m, 't) pyval list"
type_synonym ('m, 't) kwargs = "(string \<times> ('m, 't) pyval) list"

text \<open>
  \<open>ValueError\<close> is raised by the constructor, \<open>SystemExit\<close> by \<^verbatim>\<open>sys.exit\<close>;
  \<open>ExternalError\<close> stands for whatever an external routine raises.
\<close>

datatype exn =
    ValueError string
  | SystemExit int
  | ExternalError string

datatype callee = Mlx_load | Mlx_generate | Mlx_stream_generate | Apply_chat_template

text \<open>
  \<open>Print s\<close> is one call \<^verbatim>\<open>print(s)\<close>; \<open>Call f as kws\<close> is one call of the external
  routine \<open>f\<close> with positional arguments \<open>as\<close> and keyword arguments \<open>kws\<close>, in the
  order the source writes them.
\<close>

datatype ('m, 't) event =
    Print string
  | Call callee "('m, 't) args" "('m, 't) kwargs"

text \<open>
  An external iterator that ends: the items it still has to produce, and how it ends
  after them (\<open>None\<close> for \<^verbatim>\<open>StopIteration\<close>, otherwise the exception it raises).
\<close>

datatype 'a iterator = Iterator "'a list" "exn option"

fun iterator_next :: "'a iterator \<Rightarrow> (exn + 'a option) \<times> 'a iterator" where
  "iterator_next (Iterator (x # xs) e) = (Inr (Some x), Iterator xs e)"
| "iterator_next (Iterator [] None) = (Inr None, Iterator [] None)"
| "iterator_next (Iterator [] (Some e)) = (Inl e, Iterator [] None)"

text \<open>
  The environment: whether the two imports of \<^verbatim>\<open>check_mlx\<close> succeed, the four external
  routines, and what \<^verbatim>\<open>argparse\<close> does with the command lines that the model of
  \<^verbatim>\<open>parse_args\<close> below leaves open (the value of \<^verbatim>\<open>args.confirm\<close>, or the
  exception it leaves with).

  A trace records the \<^verbatim>\<open>print\<close> calls of this module and its calls of external
  routines; what an external routine writes by itself is not recorded.
\<close>

record ('m, 't) env =
  import_mlx_core :: bool
  import_mlx_lm :: bool
  mlx_load :: "('m, 't) args \<Rightarrow> ('m, 't) kwargs \<Rightarrow> exn + ('m \<times> 't)"
  mlx_generate :: "('m, 't) args \<Rightarrow> ('m, 't) kwargs \<Rightarrow> exn + string"
  mlx_stream :: "('m, 't) args \<Rightarrow> ('m, 't) kwargs \<Rightarrow> string iterator"
  apply_chat_template :: "('m, 't) args \<Rightarrow> ('m, 't) kwargs \<Rightarrow> exn + string"
  argparse_rest :: "string list \<Rightarrow> exn + bool"

subsection \<open>String formatting\<close>

text \<open>\<^verbatim>\<open>str(n)\<close> for an integer: decimal digits, with a minus sign when negative.\<close>

definition digit_char :: "nat \<Rightarrow> char" where
  "digit_char d = ''0123456789'' ! d"

function str_nat :: "nat \<Rightarrow> string" where
  "str_nat n = (if n < 10 then [digit_char n] else str_nat (n div 10) @ [digit_char (n mod 10)])"
  by pat_completeness auto
termination
  by (relation "measure id") auto

definition str_int :: "int \<Rightarrow> string" where
  "str_int i = (if i < 0 then ''-'' @ str_nat (nat (- i)) else str_nat (nat i))"

text \<open>
  \<^verbatim>\<open>repr(s)\<close> for a string of ASCII characters: single quotes, unless the string holds a
  single quote and no double quote; backslash, the chosen quote, tab, newline and
  carriage return are escaped with a backslash, any other control character as
  \<^verbatim>\<open>\xhh\<close>. This is Python's \<^verbatim>\<open>repr\<close> on ASCII strings only, which the keys of
  \<^verbatim>\<open>MODELS\<close> are: a byte from 0x80 on is kept as it is, whereas Python escapes the
  characters beyond ASCII that are not printable.
\<close>

definition hex_char :: "nat \<Rightarrow> char" where
  "hex_char d = ''0123456789abcdef'' ! d"

definition repr_char :: "char \<Rightarrow> char \<Rightarrow> string" where
  "repr_char q c =
     (if c = CHR 0x5C then [CHR 0x5C, CHR 0x5C]
      else if c = q then [CHR 0x5C, q]
      else if c = CHR 0x09 then [CHR 0x5C, CHR ''t'']
      else if c = CHR 0x0A then [CHR 0x5C, CHR ''n'']
      else if c = CHR 0x0D then [CHR 0x5C, CHR ''r'']
      else if (of_char c :: nat) < 32 \<or> c = CHR 0x7F
        then [CHR 0x5C, CHR ''x'', hex_char (of_char c div 16), hex_char (of_char c mod 16)]
      else [c])"

definition repr_str :: "string \<Rightarrow> string" where
  "repr_str s =
     (let q = (if CHR 0x27 \<in> set s \<and> CHR 0x22 \<notin> set s then CHR 0x22 else CHR 0x27)
      in [q] @ concat (map (repr_char q) s) @ [q])"

text \<open>\<^verbatim>\<open>", ".join(xs)\<close> and \<^verbatim>\<open>str\<close> of a list of strings.\<close>

fun join_comma :: "string list \<Rightarrow> string" where
  "join_comma [] = []"
| "join_comma [x] = x"
| "join_comma (x # y # ys) = x @ '', '' @ join_comma (y # ys)"

definition repr_list :: "string list \<Rightarrow> string" where
  "repr_list xs = ''['' @ join_comma (map repr_str xs) @ '']''"

subsection \<open>The variant table\<close>

record model_info =
  repo :: string
  size_gb :: int
  quality :: string

text \<open>
  A Python dict literal with distinct keys, in source order: \<open>map_of\<close> is the lookup,
  \<open>map fst\<close> is \<^verbatim>\<open>keys()\<close>.
\<close>

type_synonym models = "(string \<times> model_info) list"

definition MODELS :: models where
  "MODELS =
     [(''4bit'', \<lparr>repo = ''mlx-community/Llama-3.3-70B-Instruct-4bit'',
                 size_gb = 38,
                 quality = ''Good quality, 4-bit quantization''\<rparr>),
      (''8bit'', \<lparr>repo = ''mlx-community/Llama-3.3-70B-Instruct-8bit'',
                 size_gb = 70,
                 quality = ''High quality, requires 64GB+ RAM''\<rparr>),
      (''3bit'', \<lparr>repo = ''mlx-community/Llama-3.3-70B-Instruct-3bit'',
                 size_gb = 28,
                 quality = ''Lower quality, fits 32GB RAM''\<rparr>)]"

subsection \<open>check_mlx\<close>

text \<open>
  The two imports in order; an \<^verbatim>\<open>ImportError\<close> from either gives \<open>False\<close>.
\<close>

definition check_mlx :: "('m, 't) env \<Rightarrow> bool" where
  "check_mlx env =
     (if import_mlx_core env then (if import_mlx_lm env then True else False) else False)"

subsection \<open>The constructor\<close>

text \<open>
  The object keeps \<^verbatim>\<open>verbose\<close>, \<^verbatim>\<open>model\<close> and \<^verbatim>\<open>tokenizer\<close>. (It also keeps
  the two module handles \<^verbatim>\<open>mx\<close> and \<^verbatim>\<open>generate_fn\<close>, which no method reads, and
  it drops its \<^verbatim>\<open>max_tokens\<close> argument.)
\<close>

record ('m, 't) session =
  verbose :: bool
  model :: 'm
  tokenizer :: 't

definition rule60 :: string where
  "rule60 = replicate 60 CHR ''=''"

definition banner :: "string \<Rightarrow> model_info \<Rightarrow> string list" where
  "banner model_name info =
     [CHR 0x0A # rule60,
      ''MLX Llama 3.3 70B Instruct - '' @ model_name,
      rule60,
      ''Repository: '' @ repo info,
      ''Size: ~'' @ str_int (size_gb info) @ ''GB'',
      ''Quality: '' @ quality info,
      rule60 @ [CHR 0x0A]]"

text \<open>The warning sign is U+26A0 U+FE0F, written as its UTF-8 bytes.\<close>

definition warning_sign :: string where
  "warning_sign = [CHR 0xE2, CHR 0x9A, CHR 0xA0, CHR 0xEF, CHR 0xB8, CHR 0x8F]"

definition capacity_warning :: "string list" where
  "capacity_warning =
     [warning_sign @ ''  Warning: This model may not fit in 16GB RAM!'',
      ''   Consider using llama_transformer.py with GGUF models instead.'',
      ''   GGUF supports streaming from disk with mmap.'' @ [CHR 0x0A]]"

definition loading_notice :: "model_info \<Rightarrow> string list" where
  "loading_notice info =
     [''Loading model from: '' @ repo info,
      ''This may take several minutes on first download...'']"

text \<open>The check mark is U+2713.\<close>

definition loaded_notice :: "string list" where
  "loaded_notice =
     [[CHR 0x0A, CHR 0xE2, CHR 0x9C, CHR 0x93] @ '' Model loaded successfully!'']"

definition missing_notice :: "string list" where
  "missing_notice =
     [''Error: MLX not installed.'',
      ''Install with: pip install mlx mlx-lm transformers'']"

text \<open>
  The notices above are the arguments of consecutive \<^verbatim>\<open>print\<close> calls;
  \<open>map Print\<close> turns them into the events.

  \<^verbatim>\<open>__init__\<close>, with the class attribute \<^verbatim>\<open>MODELS\<close> (read through \<^verbatim>\<open>self\<close>) as
  a parameter. The steps are those of the source, in its order: the dependency check
  and \<^verbatim>\<open>sys.exit(1)\<close>; the membership test and \<^verbatim>\<open>ValueError\<close>; the banner and the
  capacity warning when verbose; the loading notice when verbose; the load, whose
  exception is not caught; the final notice when verbose.
\<close>

definition init_with ::
  "models \<Rightarrow> ('m, 't) env \<Rightarrow> string \<Rightarrow> int \<Rightarrow> bool \<Rightarrow>
     ('m, 't) event list \<times> (exn + ('m, 't) session)" where
  "init_with tbl env model_name max_tokens vb =
     (if \<not> check_mlx env then (map Print missing_notice, Inl (SystemExit 1))
      else case map_of tbl model_name of
        None \<Rightarrow>
          ([], Inl (ValueError (''Unknown model: '' @ model_name @ ''. Options: ''
                                 @ repr_list (map fst tbl))))
      | Some info \<Rightarrow>
          (let out1 = (if vb
                       then map Print (banner model_name info)
                            @ (if size_gb info > 16 then map Print capacity_warning else [])
                       else []);
               out2 = (if vb then map Print (loading_notice info) else []);
               load_call = Call Mlx_load [PStr (repo info)] []
           in case mlx_load env [PStr (repo info)] [] of
                Inl e \<Rightarrow> (out1 @ out2 @ [load_call], Inl e)
              | Inr (m, t) \<Rightarrow>
                  (out1 @ out2 @ [load_call] @ (if vb then map Print loaded_notice else []),
                   Inr \<lparr>verbose = vb, model = m, tokenizer = t\<rparr>)))"

definition init ::
  "('m, 't) env \<Rightarrow> string \<Rightarrow> int \<Rightarrow> bool \<Rightarrow> ('m, 't) event list \<times> (exn + ('m, 't) session)" where
  "init = init_with MODELS"

text \<open>The defaults of the constructor's parameters.\<close>

definition init_default_max_tokens :: int where
  "init_default_max_tokens = 2048"

definition init_default_verbose :: bool where
  "init_default_verbose = True"

subsection \<open>generate and chat\<close>

text \<open>The defaults of the parameters of \<^verbatim>\<open>generate\<close>, \<^verbatim>\<open>chat\<close> and \<^verbatim>\<open>stream_generate\<close>.\<close>

definition default_max_tokens :: int where
  "default_max_tokens = 512"

definition default_temperature :: real where
  "default_temperature = 0.7"

definition default_top_p :: real where
  "default_top_p = 0.9"

text \<open>
  \<^verbatim>\<open>generate\<close>: one call of \<^verbatim>\<open>mlx_lm.generate\<close> with the two handles and five
  keyword arguments; its result, or its exception, is the method's.
\<close>

definition generate ::
  "('m, 't) env \<Rightarrow> ('m, 't) session \<Rightarrow> string \<Rightarrow> int \<Rightarrow> real \<Rightarrow> real \<Rightarrow>
     ('m, 't) event list \<times> (exn + string)" where
  "generate env self prompt max_tokens temperature top_p =
     (let as = [PModel (model self), PTokenizer (tokenizer self)];
          kws = [(''prompt'', PStr prompt),
                 (''max_tokens'', PInt max_tokens),
                 (''temp'', PFloat temperature),
                 (''top_p'', PFloat top_p),
                 (''verbose'', PBool (verbose self))];
          response = mlx_generate env as kws
      in ([Call Mlx_generate as kws], response))"

text \<open>
  \<^verbatim>\<open>chat\<close>: the method \<^verbatim>\<open>apply_chat_template\<close> of the tokenizer (the receiver is
  written as the first positional argument), then \<^verbatim>\<open>generate\<close> on the rendered
  prompt, without a \<^verbatim>\<open>top_p\<close> argument, so with its default.
\<close>

definition chat ::
  "('m, 't) env \<Rightarrow> ('m, 't) session \<Rightarrow> message list \<Rightarrow> int \<Rightarrow> real \<Rightarrow>
     ('m, 't) event list \<times> (exn + string)" where
  "chat env self messages max_tokens temperature =
     (let as = [PTokenizer (tokenizer self), PMessages messages];
          kws = [(''tokenize'', PBool False), (''add_generation_prompt'', PBool True)];
          template_call = Call Apply_chat_template as kws
      in case apply_chat_template env as kws of
           Inl e \<Rightarrow> ([template_call], Inl e)
         | Inr prompt \<Rightarrow>
             (case generate env self prompt max_tokens temperature default_top_p of
                (evs, r) \<Rightarrow> (template_call # evs, r)))"

subsection \<open>stream_generate\<close>

text \<open>
  \<^verbatim>\<open>stream_generate\<close> is a generator function: calling it runs none of its body and
  returns a generator object. The object is \<open>Created\<close> until the first \<^verbatim>\<open>next\<close>,
  which calls \<^verbatim>\<open>mlx_lm.stream_generate\<close> and enters the loop; it is \<open>Suspended\<close> at
  the \<^verbatim>\<open>yield\<close>, holding the external iterator; it is \<open>Finished\<close> once the loop has
  ended or an exception has left it.
\<close>

datatype ('m, 't) generator =
    Created "('m, 't) session" string int real
  | Suspended "string iterator"
  | Finished

definition stream_generate ::
  "('m, 't) session \<Rightarrow> string \<Rightarrow> int \<Rightarrow> real \<Rightarrow> ('m, 't) generator" where
  "stream_generate self prompt max_tokens temperature =
     Created self prompt max_tokens temperature"

text \<open>
  One turn of \<^verbatim>\<open>for token in ...: yield token\<close>: ask the external iterator for its
  next item and yield it; at its end the generator ends too (\<open>Inr None\<close>); its
  exception is not caught.
\<close>

definition resume :: "string iterator \<Rightarrow> (exn + string option) \<times> ('m, 't) generator" where
  "resume it =
     (case iterator_next it of
        (Inr (Some token), it') \<Rightarrow> (Inr (Some token), Suspended it')
      | (Inr None, _) \<Rightarrow> (Inr None, Finished)
      | (Inl e, _) \<Rightarrow> (Inl e, Finished))"

fun gen_next ::
  "('m, 't) env \<Rightarrow> ('m, 't) generator \<Rightarrow>
     ('m, 't) event list \<times> (exn + string option) \<times> ('m, 't) generator" where
  "gen_next env (Created self prompt max_tokens temperature) =
     (let as = [PModel (model self), PTokenizer (tokenizer self)];
          kws = [(''prompt'', PStr prompt),
                 (''max_tokens'', PInt max_tokens),
                 (''temp'', PFloat temperature)]
      in case resume (mlx_stream env as kws) of
           (r, g) \<Rightarrow> ([Call Mlx_stream_generate as kws], r, g))"
| "gen_next env (Suspended it) = (case resume it of (r, g) \<Rightarrow> ([], r, g))"
| "gen_next env Finished = ([], Inr None, Finished)"

text \<open>
  The caller that consumes the generator to its end (\<^verbatim>\<open>for t in g\<close>, \<^verbatim>\<open>list(g)\<close>,
  \<^verbatim>\<open>"".join(g)\<close>): the events, the fragments in the order received, and the
  exception that cut the iteration short, if any.
\<close>

fun pending :: "('m, 't) env \<Rightarrow> ('m, 't) generator \<Rightarrow> nat" where
  "pending env (Created self prompt max_tokens temperature) =
     (case mlx_stream env [PModel (model self), PTokenizer (tokenizer self)]
             [(''prompt'', PStr prompt), (''max_tokens'', PInt max_tokens),
              (''temp'', PFloat temperature)] of
        Iterator xs e \<Rightarrow> length xs)"
| "pending env (Suspended (Iterator xs e)) = length xs"
| "pending env Finished = 0"

function consume ::
  "('m, 't) env \<Rightarrow> ('m, 't) generator \<Rightarrow> ('m, 't) event list \<times> string list \<times> exn option" where
  "consume env g =
     (case gen_next env g of
        (evs, Inr (Some token), g') \<Rightarrow>
          (case consume env g' of (evs', tokens, e) \<Rightarrow> (evs @ evs', token # tokens, e))
      | (evs, Inr None, g') \<Rightarrow> (evs, [], None)
      | (evs, Inl e, g') \<Rightarrow> (evs, [], Some e))"
  by pat_completeness auto

termination consume
  apply (relation "measure (\<lambda>(env, g). pending env g)")
   apply simp
  apply simp
  subgoal for env g evs y r g' b token
  proof -
    assume "(evs, y) = gen_next env g" "(Inr (Some token), g') = y"
    then have step: "gen_next env g = (evs, Inr (Some token), g')"
      by simp
    have res: "pending env h < length xs"
      if "resume (Iterator xs e) = (Inr (Some token), h)" for xs e and h :: "('a, 'b) generator"
      using that by (cases xs; cases e) (auto simp: resume_def)
    show "pending env g' < pending env g"
    proof (cases g)
      case (Created self prompt max_tokens temperature)
      with step show ?thesis
        by (auto simp: Let_def split: prod.splits iterator.splits dest: res)
    next
      case (Suspended it)
      with step show ?thesis
        by (cases it) (auto split: prod.splits dest: res)
    next
      case Finished
      with step show ?thesis by auto
    qed
  qed
  done

declare consume.simps [simp del]
declare str_nat.simps [simp del]

subsection \<open>The entry point\<close>

definition main_intro :: "string list" where
  "main_intro =
     [CHR 0x0A # warning_sign @ ''  Note: For 16GB RAM, MLX may struggle with 70B models.'',
      ''   The recommended approach is llama_transformer.py with GGUF models'',
      ''   which supports mmap for streaming from disk.'' @ [CHR 0x0A],
      ''If you have 32GB+ unified memory, you can try:'',
      ''  python mlx_transformer.py'' @ [CHR 0x0A]]"

definition unconfirmed_notice :: "string list" where
  "unconfirmed_notice =
     [''Run with --confirm if you have 32GB+ RAM to proceed.'',
      ''For 16GB RAM, use the main llama_transformer.py instead.'']"

definition example_messages :: "message list" where
  "example_messages =
     [[(''role'', ''system''), (''content'', ''You are a helpful assistant.'')],
      [(''role'', ''user''), (''content'', ''What is Python?'')]]"

text \<open>
  The parser of \<^verbatim>\<open>main\<close> is \<^verbatim>\<open>ArgumentParser()\<close>, which brings the options
  \<^verbatim>\<open>-h\<close> and \<^verbatim>\<open>--help\<close>, with the one declaration
  \<^verbatim>\<open>add_argument("--confirm", action="store_true", ...)\<close>. A long option may be
  abbreviated to any of its prefixes that is longer than the two dashes and fits no
  other option.
\<close>

definition is_abbrev :: "string \<Rightarrow> string \<Rightarrow> bool" where
  "is_abbrev a option_string = (2 < length a \<and> take (length a) option_string = a)"

definition is_confirm :: "string \<Rightarrow> bool" where
  "is_confirm a = (is_abbrev a ''--confirm'' \<and> \<not> is_abbrev a ''--help'')"

text \<open>
  Arguments the parser has no use for: a word that does not start with a dash (the
  parser declares no positional argument), and a word that starts with two dashes,
  holds no \<^verbatim>\<open>=\<close> and abbreviates neither long option.
\<close>

definition unrecognised :: "string \<Rightarrow> bool" where
  "unrecognised a =
     ((a \<noteq> [] \<and> hd a \<noteq> CHR ''-'')
      \<or> (take 2 a = ''--'' \<and> 2 < length a \<and> CHR ''='' \<notin> set a
          \<and> \<not> is_abbrev a ''--confirm'' \<and> \<not> is_abbrev a ''--help''))"

text \<open>
  \<^verbatim>\<open>parser.parse_args()\<close> on the arguments after the program name, giving
  \<^verbatim>\<open>args.confirm\<close>. When every argument is the flag, \<^verbatim>\<open>store_true\<close> gives
  \<open>False\<close> by default and \<open>True\<close> once the flag occurs. When the arguments are flags and
  unrecognised words, with at least one of the latter, the parser reports them on
  standard error and leaves with \<^verbatim>\<open>sys.exit(2)\<close>. Every other command line (a
  help request, \<^verbatim>\<open>--\<close>, an option with \<^verbatim>\<open>=\<close>, a single-dash argument, an empty
  word) is left to the environment.
\<close>

definition parse_args :: "('m, 't) env \<Rightarrow> string list \<Rightarrow> exn + bool" where
  "parse_args env argv =
     (if list_all is_confirm argv then Inr (list_ex is_confirm argv)
      else if list_all (\<lambda>a. is_confirm a \<or> unrecognised a) argv then Inl (SystemExit 2)
      else argparse_rest env argv)"

text \<open>
  \<^verbatim>\<open>main\<close>. Building the parser prints nothing. The constructor is called with
  \<^verbatim>\<open>model_name="4bit"\<close> and its other defaults, \<^verbatim>\<open>chat\<close> with its defaults.
\<close>

definition main :: "('m, 't) env \<Rightarrow> string list \<Rightarrow> ('m, 't) event list \<times> (exn + unit)" where
  "main env argv =
     (case parse_args env argv of
        Inl e \<Rightarrow> (map Print main_intro, Inl e)
      | Inr confirm \<Rightarrow>
          (if \<not> confirm then (map Print main_intro @ map Print unconfirmed_notice, Inr ())
           else (case init env ''4bit'' init_default_max_tokens init_default_verbose of
                   (evs1, Inl e) \<Rightarrow> (map Print main_intro @ evs1, Inl e)
                 | (evs1, Inr transformer) \<Rightarrow>
                     (case chat env transformer example_messages
                             default_max_tokens default_temperature of
                        (evs2, Inl e) \<Rightarrow> (map Print main_intro @ evs1 @ evs2, Inl e)
                      | (evs2, Inr response) \<Rightarrow>
                          (map Print main_intro @ evs1 @ evs2
                             @ [Print (CHR 0x0A # ''Response: '' @ response)],
                           Inr ())))))"

text \<open>
  The status the interpreter leaves with after \<^verbatim>\<open>main()\<close> at the end of the script:
  0 after a return, the code of a \<^verbatim>\<open>SystemExit\<close>, 1 after any other exception.
\<close>

fun exit_status :: "exn + unit \<Rightarrow> int" where
  "exit_status (Inr _) = 0"
| "exit_status (Inl (SystemExit n)) = n"
| "exit_status (Inl _) = 1"

definition script :: "('m, 't) env \<Rightarrow> string list \<Rightarrow> ('m, 't) event list \<times> int" where
  "script env argv = (case main env argv of (evs, r) \<Rightarrow> (evs, exit_status r))"

subsection \<open>Reading a trace\<close>

text \<open>The names of the keyword arguments of a call, and the value passed under a name.\<close>

fun kwarg_names :: "('m, 't) event \<Rightarrow> string list" where
  "kwarg_names (Call f as kws) = map fst kws"
| "kwarg_names (Print s) = []"

fun kwarg :: "string \<Rightarrow> ('m, 't) event \<Rightarrow> ('m, 't) pyval option" where
  "kwarg k (Call f as kws) = map_of kws k"
| "kwarg k (Print s) = None"

text \<open>Whether an event is a call of the load routine.\<close>

fun is_load :: "('m, 't) event \<Rightarrow> bool" where
  "is_load (Call Mlx_load as kws) = True"
| "is_load _ = False"

subsection \<open>A stub environment\<close>

text \<open>
  A concrete environment on which the operations can be run: the runtime is present,
  the load returns the handles 1 and 2, generation echoes the prompt (the streaming
  routine produces the same text in three fragments), the template concatenates the
  values of the messages, and the parser leaves with status 2 on the command lines that
  \<^verbatim>\<open>parse_args\<close> hands to the environment.
\<close>

definition stub_fragments :: "(nat, nat) kwargs \<Rightarrow> string list" where
  "stub_fragments kws =
     (case map_of kws ''prompt'' of
        Some (PStr p) \<Rightarrow> [''echo'', '': '', p]
      | _ \<Rightarrow> [])"

definition stub_template :: "(nat, nat) args \<Rightarrow> (nat, nat) kwargs \<Rightarrow> exn + string" where
  "stub_template as kws =
     (case as of
        [PTokenizer t, PMessages ms] \<Rightarrow> Inr (concat (map (\<lambda>m. concat (map snd m)) ms))
      | _ \<Rightarrow> Inl (ExternalError ''bad arguments''))"

definition stub_env :: "(nat, nat) env" where
  "stub_env =
     \<lparr>import_mlx_core = True,
      import_mlx_lm = True,
      mlx_load = (\<lambda>as kws. Inr (1, 2)),
      mlx_generate = (\<lambda>as kws. Inr (concat (stub_fragments kws))),
      mlx_stream = (\<lambda>as kws. Iterator (stub_fragments kws) None),
      apply_chat_template = stub_template,
      argparse_rest = (\<lambda>argv. Inl (SystemExit 2))\<rparr>"

definition stub_session :: "(nat, nat) session" where
  "stub_session = \<lparr>verbose = False, model = 1, tokenizer = 2\<rparr>"

text \<open>
  A table of two variants on either side of the 16 GB threshold, in place of the class
  attribute \<^verbatim>\<open>MODELS\<close>.
\<close>

definition tiny_table :: models where
  "tiny_table =
     [(''tiny'', \<lparr>repo = ''example/tiny-4bit'', size_gb = 16, quality = ''Small''\<rparr>),
      (''big'', \<lparr>repo = ''example/big-4bit'', size_gb = 17, quality = ''Large''\<rparr>)]"

section \<open>Basic facts\<close>

lemma check_mlx_iff: "check_mlx env \<longleftrightarrow> import_mlx_core env \<and> import_mlx_lm env"
  by (simp add: check_mlx_def)

lemma init_with_unavailable:
  "\<not> check_mlx env \<Longrightarrow>
   init_with tbl env model_name max_tokens vb = (map Print missing_notice, Inl (SystemExit 1))"
  by (simp add: init_with_def)

lemma init_with_unknown:
  "check_mlx env \<Longrightarrow> map_of tbl model_name = None \<Longrightarrow>
   init_with tbl env model_name max_tokens vb =
     ([], Inl (ValueError (''Unknown model: '' @ model_name @ ''. Options: ''
                            @ repr_list (map fst tbl))))"
  by (simp add: init_with_def)

lemma init_with_known:
  "check_mlx env \<Longrightarrow> map_of tbl model_name = Some info \<Longrightarrow>
   fst (init_with tbl env model_name max_tokens vb) =
     (if vb then map Print (banner model_name info)
                 @ (if size_gb info > 16 then map Print capacity_warning else [])
                 @ map Print (loading_notice info)
      else [])
     @ Call Mlx_load [PStr (repo info)] []
     # (case mlx_load env [PStr (repo info)] [] of
          Inl e \<Rightarrow> []
        | Inr mt \<Rightarrow> if vb then map Print loaded_notice else [])"
  by (simp add: init_with_def Let_def split: sum.splits prod.splits)

lemma keys_MODELS: "map fst MODELS = [''4bit'', ''8bit'', ''3bit'']"
  by (simp add: MODELS_def)

lemma repr_keys:
  "repr_list [''4bit'', ''8bit'', ''3bit''] =
     ''['' @ [CHR 0x27] @ ''4bit'' @ [CHR 0x27] @ '', '' @ [CHR 0x27] @ ''8bit'' @ [CHR 0x27]
       @ '', '' @ [CHR 0x27] @ ''3bit'' @ [CHR 0x27] @ '']''"
  by (simp add: repr_list_def repr_str_def repr_char_def Let_def)

lemma consume_Suspended: "consume env (Suspended (Iterator xs e)) = ([], xs, e)"
proof (induction xs)
  case Nil
  show ?case
    by (cases e) (simp_all add: consume.simps [of _ "Suspended it" for it] resume_def)
next
  case (Cons x xs)
  then show ?case
    by (simp add: consume.simps [of _ "Suspended (Iterator (y # ys) e')" for y ys e'] resume_def)
qed

lemma consume_Created:
  assumes "mlx_stream env [PModel (model self), PTokenizer (tokenizer self)]
             [(''prompt'', PStr prompt), (''max_tokens'', PInt max_tokens),
              (''temp'', PFloat temperature)] = Iterator xs e"
  shows "consume env (Created self prompt max_tokens temperature) =
           ([Call Mlx_stream_generate [PModel (model self), PTokenizer (tokenizer self)]
               [(''prompt'', PStr prompt), (''max_tokens'', PInt max_tokens),
                (''temp'', PFloat temperature)]], xs, e)"
proof (cases xs)
  case Nil
  with assms show ?thesis
    by (cases e)
       (simp_all add: consume.simps [of _ "Created a b c d" for a b c d] resume_def)
next
  case (Cons x xs')
  with assms show ?thesis
    by (simp add: consume.simps [of _ "Created a b c d" for a b c d] resume_def
          consume_Suspended)
qed

lemma map_of_MODELS_unknown:
  "model_name \<notin> set (map fst MODELS) \<Longrightarrow> map_of MODELS model_name = None"
  by (simp add: map_of_eq_None_iff)

lemma takeWhile_prints_load:
  "takeWhile (\<lambda>e. \<not> is_load e) (map Print xs @ Call Mlx_load as kws # rest) = map Print xs"
  by (induction xs) simp_all

lemma Print_in_prints: "Print s \<in> set (map Print xs) \<longleftrightarrow> s \<in> set xs"
  by (induction xs) auto

lemma rule60_head: "rule60 = CHR ''='' # replicate 59 CHR ''=''"
proof -
  have "(60 :: nat) = Suc 59" by simp
  then show ?thesis unfolding rule60_def by (simp only: replicate_Suc)
qed

lemma warning_not_in_notices:
  "s \<in> set capacity_warning \<Longrightarrow>
   s \<notin> set (banner model_name info) \<and> s \<notin> set (loading_notice info) \<and> s \<notin> set loaded_notice"
  by (auto simp: capacity_warning_def banner_def loading_notice_def loaded_notice_def
      warning_sign_def rule60_head)

lemma parse_args_empty: "parse_args env [] = Inr False"
  by (simp add: parse_args_def)

lemma is_confirm_spellings:
  "a \<in> {''--confirm'', ''--confir'', ''--confi'', ''--conf'', ''--con'', ''--co'', ''--c''}
   \<Longrightarrow> is_confirm a"
  by (auto simp: is_confirm_def is_abbrev_def)

lemma parse_args_confirm:
  assumes "argv \<noteq> []"
    and "set argv \<subseteq> {''--confirm'', ''--confir'', ''--confi'', ''--conf'', ''--con'', ''--co'', ''--c''}"
  shows "parse_args env argv = Inr True"
proof -
  have all: "\<forall>a \<in> set argv. is_confirm a"
    using assms(2) is_confirm_spellings by blast
  then have "list_all is_confirm argv"
    by (simp add: list_all_iff)
  moreover have "list_ex is_confirm argv"
    using assms(1) all by (cases argv) (auto simp: list_ex_iff)
  ultimately show ?thesis
    by (simp add: parse_args_def)
qed

section \<open>generate, chat and stream_generate\<close>

text \<open>
  C3. For every prompt, max_tokens, temperature and top_p, \<^verbatim>\<open>generate\<close> performs exactly
  one event, the call of the external generation routine with the session's two handles
  and exactly these values (and the session's verbosity flag), and its result is the
  result of that call, unchanged.
\<close>

theorem generate_forwards_verbatim:
  "generate env self prompt max_tokens temperature top_p =
     ([Call Mlx_generate [PModel (model self), PTokenizer (tokenizer self)]
         [(''prompt'', PStr prompt),
          (''max_tokens'', PInt max_tokens),
          (''temp'', PFloat temperature),
          (''top_p'', PFloat top_p),
          (''verbose'', PBool (verbose self))]],
      mlx_generate env [PModel (model self), PTokenizer (tokenizer self)]
         [(''prompt'', PStr prompt),
          (''max_tokens'', PInt max_tokens),
          (''temp'', PFloat temperature),
          (''top_p'', PFloat top_p),
          (''verbose'', PBool (verbose self))])"
  by (simp add: generate_def Let_def)

text \<open>
  C10. The two paths pass different keyword arguments. \<^verbatim>\<open>generate\<close> passes
  \<^verbatim>\<open>prompt\<close>, \<^verbatim>\<open>max_tokens\<close>, \<^verbatim>\<open>temp\<close>, \<^verbatim>\<open>top_p\<close> (whose default is 0.9) and
  \<^verbatim>\<open>verbose\<close> (the session's flag); consuming \<^verbatim>\<open>stream_generate\<close> performs one call,
  with \<^verbatim>\<open>prompt\<close>, \<^verbatim>\<open>max_tokens\<close> and \<^verbatim>\<open>temp\<close> only: no \<^verbatim>\<open>top_p\<close>, no
  \<^verbatim>\<open>verbose\<close>.
\<close>

theorem generate_stream_arguments_differ:
  "map kwarg_names (fst (generate env self prompt max_tokens temperature top_p)) =
     [[''prompt'', ''max_tokens'', ''temp'', ''top_p'', ''verbose'']]
   \<and> map (kwarg ''top_p'') (fst (generate env self prompt max_tokens temperature top_p)) =
     [Some (PFloat top_p)]
   \<and> map (kwarg ''verbose'') (fst (generate env self prompt max_tokens temperature top_p)) =
     [Some (PBool (verbose self))]
   \<and> default_top_p = 9 / 10
   \<and> map kwarg_names (fst (consume env (stream_generate self prompt max_tokens temperature))) =
     [[''prompt'', ''max_tokens'', ''temp'']]
   \<and> map (kwarg ''top_p'') (fst (consume env (stream_generate self prompt max_tokens temperature))) =
     [None]
   \<and> map (kwarg ''verbose'') (fst (consume env (stream_generate self prompt max_tokens temperature))) =
     [None]"
proof -
  obtain xs e where
    "mlx_stream env [PModel (model self), PTokenizer (tokenizer self)]
       [(''prompt'', PStr prompt), (''max_tokens'', PInt max_tokens),
        (''temp'', PFloat temperature)] = Iterator xs e"
    by (cases "mlx_stream env [PModel (model self), PTokenizer (tokenizer self)]
       [(''prompt'', PStr prompt), (''max_tokens'', PInt max_tokens),
        (''temp'', PFloat temperature)]") simp
  then have "fst (consume env (stream_generate self prompt max_tokens temperature)) =
      [Call Mlx_stream_generate [PModel (model self), PTokenizer (tokenizer self)]
         [(''prompt'', PStr prompt), (''max_tokens'', PInt max_tokens),
          (''temp'', PFloat temperature)]]"
    by (simp add: stream_generate_def consume_Created)
  then show ?thesis
    by (simp add: generate_def Let_def default_top_p_def)
qed

text \<open>
  C1. Suppose the two external routines are one stub seen twice: for the session's
  handles and the given prompt, max_tokens and temperature, the streaming routine
  produces the fragments \<open>fragments\<close> and then stops, and the generation routine
  (which also receives the default top_p and the verbosity flag) returns their
  concatenation. Then consuming \<^verbatim>\<open>stream_generate\<close> to its end yields exactly
  \<open>fragments\<close>, in order and without an exception, and their concatenation is the
  result of \<^verbatim>\<open>generate\<close>. Each resumption of the generator takes one item from the
  external iterator and yields that item: nothing is held back.
\<close>

theorem stream_generate_concat_eq_generate:
  assumes stub_stream:
    "mlx_stream env [PModel (model self), PTokenizer (tokenizer self)]
       [(''prompt'', PStr prompt), (''max_tokens'', PInt max_tokens),
        (''temp'', PFloat temperature)] = Iterator fragments None"
  assumes stub_generate:
    "mlx_generate env [PModel (model self), PTokenizer (tokenizer self)]
       [(''prompt'', PStr prompt), (''max_tokens'', PInt max_tokens),
        (''temp'', PFloat temperature), (''top_p'', PFloat default_top_p),
        (''verbose'', PBool (verbose self))] = Inr (concat fragments)"
  shows "snd (consume env (stream_generate self prompt max_tokens temperature)) = (fragments, None)
    \<and> snd (generate env self prompt max_tokens temperature default_top_p) =
        Inr (concat (fst (snd (consume env (stream_generate self prompt max_tokens temperature)))))
    \<and> gen_next env (Suspended (Iterator (x # xs) e)) = ([], Inr (Some x), Suspended (Iterator xs e))"
  using assms
  by (simp add: stream_generate_def consume_Created generate_def Let_def resume_def)

theorem stream_generate_concat_eq_generate_witness:
  "mlx_stream stub_env [PModel (model stub_session), PTokenizer (tokenizer stub_session)]
       [(''prompt'', PStr ''hi''), (''max_tokens'', PInt 5), (''temp'', PFloat 0)]
     = Iterator [''echo'', '': '', ''hi''] None
   \<and> mlx_generate stub_env [PModel (model stub_session), PTokenizer (tokenizer stub_session)]
       [(''prompt'', PStr ''hi''), (''max_tokens'', PInt 5), (''temp'', PFloat 0),
        (''top_p'', PFloat default_top_p), (''verbose'', PBool (verbose stub_session))]
     = Inr (concat [''echo'', '': '', ''hi''])
   \<and> snd (consume stub_env (stream_generate stub_session ''hi'' 5 0))
     = ([''echo'', '': '', ''hi''], None)
   \<and> snd (generate stub_env stub_session ''hi'' 5 0 default_top_p) = Inr ''echo: hi''"
  using stream_generate_concat_eq_generate
    [of stub_env stub_session "''hi''" 5 0 "[''echo'', '': '', ''hi'']"]
  by (simp add: stub_env_def stub_fragments_def)

text \<open>
  C4. When the tokenizer renders the messages to \<open>prompt\<close>, \<^verbatim>\<open>chat\<close> performs two
  calls in this order: the template rendering, with exactly the given message list,
  \<^verbatim>\<open>tokenize=False\<close> and \<^verbatim>\<open>add_generation_prompt=True\<close>; then what
  \<^verbatim>\<open>generate\<close> does on the rendered prompt with the caller's max_tokens and
  temperature and the default top_p 0.9. Its result is that of \<^verbatim>\<open>generate\<close>.
\<close>

theorem chat_renders_then_generates:
  assumes rendered:
    "apply_chat_template env [PTokenizer (tokenizer self), PMessages messages]
       [(''tokenize'', PBool False), (''add_generation_prompt'', PBool True)] = Inr prompt"
  shows "chat env self messages max_tokens temperature =
     (Call Apply_chat_template [PTokenizer (tokenizer self), PMessages messages]
        [(''tokenize'', PBool False), (''add_generation_prompt'', PBool True)]
      # fst (generate env self prompt max_tokens temperature default_top_p),
      snd (generate env self prompt max_tokens temperature default_top_p))
   \<and> fst (chat env self messages max_tokens temperature) =
     [Call Apply_chat_template [PTokenizer (tokenizer self), PMessages messages]
        [(''tokenize'', PBool False), (''add_generation_prompt'', PBool True)],
      Call Mlx_generate [PModel (model self), PTokenizer (tokenizer self)]
        [(''prompt'', PStr prompt),
         (''max_tokens'', PInt max_tokens),
         (''temp'', PFloat temperature),
         (''top_p'', PFloat (9 / 10)),
         (''verbose'', PBool (verbose self))]]"
  using rendered by (simp add: chat_def generate_def Let_def default_top_p_def split: prod.splits)

theorem chat_renders_then_generates_witness:
  "apply_chat_template stub_env [PTokenizer (tokenizer stub_session), PMessages [[(''role'', ''system''), (''content'', ''S'')], [(''role'', ''user''), (''content'', ''U'')]]]
       [(''tokenize'', PBool False), (''add_generation_prompt'', PBool True)] = Inr ''systemSuserU''
   \<and> chat stub_env stub_session [[(''role'', ''system''), (''content'', ''S'')], [(''role'', ''user''), (''content'', ''U'')]] 64 1 =
     ([Call Apply_chat_template [PTokenizer 2, PMessages [[(''role'', ''system''), (''content'', ''S'')], [(''role'', ''user''), (''content'', ''U'')]]]
        [(''tokenize'', PBool False), (''add_generation_prompt'', PBool True)],
      Call Mlx_generate [PModel 1, PTokenizer 2]
        [(''prompt'', PStr ''systemSuserU''),
         (''max_tokens'', PInt 64),
         (''temp'', PFloat 1),
         (''top_p'', PFloat (9 / 10)),
         (''verbose'', PBool False)]],
      Inr ''echo: systemSuserU'')"
  using chat_renders_then_generates [of stub_env stub_session
     "[[(''role'', ''system''), (''content'', ''S'')], [(''role'', ''user''), (''content'', ''U'')]]"
     "''systemSuserU''" 64 1]
  by (simp add: stub_env_def stub_session_def stub_template_def stub_fragments_def generate_def Let_def default_top_p_def)

section \<open>The constructor\<close>

text \<open>
  C2. With the runtime available, constructing with a key that is not in the variant
  table performs no event at all, so the load routine is not called, and raises the
  \<^verbatim>\<open>ValueError\<close> (the configuration error of this module) whose message is
  \<^verbatim>\<open>Unknown model: <key>. Options: ['4bit', '8bit', '3bit']\<close>.
\<close>

theorem init_unknown_key:
  assumes "check_mlx env" and "model_name \<notin> set (map fst MODELS)"
  shows "init env model_name max_tokens vb =
     ([], Inl (ValueError (''Unknown model: '' @ model_name @ ''. Options: ['' @ [CHR 0x27]
         @ ''4bit'' @ [CHR 0x27] @ '', '' @ [CHR 0x27] @ ''8bit'' @ [CHR 0x27] @ '', ''
         @ [CHR 0x27] @ ''3bit'' @ [CHR 0x27] @ '']'')))
     \<and> Call Mlx_load as kws \<notin> set (fst (init env model_name max_tokens vb))"
proof -
  have "init env model_name max_tokens vb =
     ([], Inl (ValueError (''Unknown model: '' @ model_name @ ''. Options: ''
                            @ repr_list (map fst MODELS))))"
    unfolding init_def using assms
    by (intro init_with_unknown map_of_MODELS_unknown)
  then show ?thesis
    by (simp add: keys_MODELS repr_keys)
qed

theorem init_unknown_key_witness:
  "check_mlx stub_env \<and> ''5bit'' \<notin> set (map fst MODELS)
   \<and> init stub_env ''5bit'' 2048 True =
     ([], Inl (ValueError (''Unknown model: 5bit. Options: ['' @ [CHR 0x27]
         @ ''4bit'' @ [CHR 0x27] @ '', '' @ [CHR 0x27] @ ''8bit'' @ [CHR 0x27] @ '', ''
         @ [CHR 0x27] @ ''3bit'' @ [CHR 0x27] @ '']'')))"
  using init_unknown_key [of stub_env "''5bit''" 2048 True]
  by (simp add: check_mlx_def stub_env_def keys_MODELS)

text \<open>
  C5. When \<^verbatim>\<open>check_mlx\<close> reports the runtime unavailable, the constructor prints the
  two lines of installation guidance and leaves through \<^verbatim>\<open>sys.exit(1)\<close>, whatever
  its arguments; nothing is loaded. Run from the confirmed entry point, the process
  ends with status 1.
\<close>

theorem init_without_mlx:
  assumes "\<not> check_mlx env"
  shows "init env model_name max_tokens vb =
     ([Print ''Error: MLX not installed.'',
       Print ''Install with: pip install mlx mlx-lm transformers''],
      Inl (SystemExit 1))
   \<and> exit_status (Inl (SystemExit 1)) = 1
   \<and> (parse_args env argv = Inr True \<longrightarrow>
        script env argv =
          (map Print main_intro
             @ [Print ''Error: MLX not installed.'',
                Print ''Install with: pip install mlx mlx-lm transformers''], 1))"
  using assms
  by (simp add: init_def init_with_unavailable missing_notice_def script_def main_def)

theorem init_without_mlx_witness:
  "\<not> check_mlx (stub_env\<lparr>import_mlx_lm := False\<rparr>)
   \<and> init (stub_env\<lparr>import_mlx_lm := False\<rparr>) ''4bit'' 2048 True =
     ([Print ''Error: MLX not installed.'',
       Print ''Install with: pip install mlx mlx-lm transformers''],
      Inl (SystemExit 1))
   \<and> parse_args (stub_env\<lparr>import_mlx_lm := False\<rparr>) [''--confirm''] = Inr True
   \<and> snd (script (stub_env\<lparr>import_mlx_lm := False\<rparr>) [''--confirm'']) = 1"
  using init_without_mlx [of "stub_env\<lparr>import_mlx_lm := False\<rparr>" "''4bit''" 2048 True "[''--confirm'']"]
  by (simp add: check_mlx_def stub_env_def parse_args_def is_confirm_def is_abbrev_def)

text \<open>
  C9. The dependency check comes first. For a key that is not in the table: without
  the runtime the constructor prints the guidance and exits with status 1, and no
  \<^verbatim>\<open>ValueError\<close> is raised; with the runtime it raises the \<^verbatim>\<open>ValueError\<close> for the
  key.
\<close>

theorem init_checks_dependency_before_key:
  assumes "model_name \<notin> set (map fst MODELS)"
  shows "(\<not> check_mlx env \<longrightarrow>
            init env model_name max_tokens vb = (map Print missing_notice, Inl (SystemExit 1))
          \<and> snd (init env model_name max_tokens vb) \<noteq> Inl (ValueError msg)
          \<and> exit_status (Inl (SystemExit 1)) = 1)
       \<and> (check_mlx env \<longrightarrow>
            snd (init env model_name max_tokens vb) =
              Inl (ValueError (''Unknown model: '' @ model_name @ ''. Options: ''
                                 @ repr_list (map fst MODELS))))"
  using assms
  by (simp add: init_def init_with_unavailable init_with_unknown map_of_MODELS_unknown)

theorem init_checks_dependency_before_key_witness:
  "''5bit'' \<notin> set (map fst MODELS)
   \<and> \<not> check_mlx (stub_env\<lparr>import_mlx_core := False\<rparr>)
   \<and> init (stub_env\<lparr>import_mlx_core := False\<rparr>) ''5bit'' 2048 False =
        (map Print missing_notice, Inl (SystemExit 1))
   \<and> check_mlx stub_env
   \<and> snd (init stub_env ''5bit'' 2048 False) =
        Inl (ValueError (''Unknown model: 5bit. Options: '' @ repr_list (map fst MODELS)))"
  using init_checks_dependency_before_key [of "''5bit''" "stub_env\<lparr>import_mlx_core := False\<rparr>" 2048 False]
    init_checks_dependency_before_key [of "''5bit''" stub_env 2048 False]
  by (simp add: check_mlx_def stub_env_def keys_MODELS)

text \<open>
  C6. Take any variant table, a key it maps to \<open>info\<close>, and the runtime available.
  With verbose on, the three lines of the capacity warning are all printed before the
  call of the load routine exactly when \<open>size_gb info\<close> is greater than 16, and none
  of them is printed anywhere exactly when it is not; the load is called in both cases.
  With verbose off, none is printed. In the module's own table, "8bit" (70) and "4bit"
  (38) print the warning before the load.
\<close>

theorem capacity_warning_iff_size_exceeds_16:
  assumes "check_mlx env" and "map_of tbl model_name = Some info"
  shows "(set (map Print capacity_warning)
            \<subseteq> set (takeWhile (\<lambda>e. \<not> is_load e) (fst (init_with tbl env model_name max_tokens True)))
          \<longleftrightarrow> 16 < size_gb info)
     \<and> (set (map Print capacity_warning) \<inter> set (fst (init_with tbl env model_name max_tokens True)) = {}
          \<longleftrightarrow> \<not> 16 < size_gb info)
     \<and> Call Mlx_load [PStr (repo info)] [] \<in> set (fst (init_with tbl env model_name max_tokens True))
     \<and> set (map Print capacity_warning) \<inter> set (fst (init_with tbl env model_name max_tokens False)) = {}
     \<and> set (map Print capacity_warning)
            \<subseteq> set (takeWhile (\<lambda>e. \<not> is_load e) (fst (init env ''8bit'' max_tokens True)))
     \<and> set (map Print capacity_warning)
            \<subseteq> set (takeWhile (\<lambda>e. \<not> is_load e) (fst (init env ''4bit'' max_tokens True)))"
proof -
  define rest :: "bool \<Rightarrow> ('a, 'b) event list" where
    "rest vb = (case mlx_load env [PStr (repo info)] [] of
                  Inl e \<Rightarrow> []
                | Inr mt \<Rightarrow> if vb then map Print loaded_notice else [])" for vb
  define pre where
    "pre = banner model_name info @ (if 16 < size_gb info then capacity_warning else [])
             @ loading_notice info"
  have rest_prints: "\<exists>ys. rest vb = map Print ys \<and> set ys \<subseteq> set loaded_notice" for vb
    by (cases "mlx_load env [PStr (repo info)] []"; cases vb) (auto simp: rest_def)
  have trace_True:
    "fst (init_with tbl env model_name max_tokens True) =
       map Print pre @ Call Mlx_load [PStr (repo info)] [] # rest True"
    using assms by (simp add: init_with_known rest_def pre_def)
  have trace_False:
    "fst (init_with tbl env model_name max_tokens False) =
       Call Mlx_load [PStr (repo info)] [] # rest False"
    using assms by (simp add: init_with_known rest_def)
  have before: "takeWhile (\<lambda>e. \<not> is_load e) (fst (init_with tbl env model_name max_tokens True))
      = map Print pre"
    by (simp only: trace_True takeWhile_prints_load)
  have nonempty: "capacity_warning \<noteq> []"
    by (simp add: capacity_warning_def)
  have rest_free: "Print s \<notin> set (rest vb)" if "s \<in> set capacity_warning" for s vb
  proof -
    obtain ys where "rest vb = map Print ys" "set ys \<subseteq> set loaded_notice"
      using rest_prints by blast
    with warning_not_in_notices [OF that, of model_name info] show ?thesis
      by (auto simp: Print_in_prints)
  qed
  have c1: "set (map Print capacity_warning) \<subseteq> set (map Print pre) \<longleftrightarrow> 16 < size_gb info"
  proof (cases "16 < size_gb info")
    case True
    then show ?thesis by (auto simp: pre_def)
  next
    case False
    define s where "s = hd capacity_warning"
    have s: "s \<in> set capacity_warning"
      using nonempty by (simp add: s_def)
    with False warning_not_in_notices [OF s, of model_name info]
    have "Print s \<notin> set (map Print pre :: ('a, 'b) event list)"
      by (auto simp: pre_def)
    with s False show ?thesis by auto
  qed
  have c2: "set (map Print capacity_warning)
              \<inter> set (map Print pre @ Call Mlx_load [PStr (repo info)] [] # rest True) = {}
            \<longleftrightarrow> \<not> 16 < size_gb info"
  proof (cases "16 < size_gb info")
    case True
    define s where "s = hd capacity_warning"
    have s: "s \<in> set capacity_warning"
      using nonempty by (simp add: s_def)
    with True have "Print s \<in> set (map Print capacity_warning)
              \<inter> set (map Print pre @ Call Mlx_load [PStr (repo info)] [] # rest True)"
      by (auto simp: pre_def)
    with True show ?thesis by blast
  next
    case False
    then show ?thesis
      using warning_not_in_notices [of _ model_name info] rest_free [of _ True]
      by (auto simp: pre_def)
  qed
  have c4: "set (map Print capacity_warning) \<inter> set (Call Mlx_load [PStr (repo info)] [] # rest False) = {}"
    using rest_free [of _ False] by auto
  have known: "set (map Print capacity_warning)
            \<subseteq> set (takeWhile (\<lambda>e. \<not> is_load e) (fst (init env k max_tokens True)))"
    if "map_of MODELS k = Some i" "16 < size_gb i" for k i
  proof -
    have "fst (init env k max_tokens True) =
       map Print (banner k i @ capacity_warning @ loading_notice i)
         @ Call Mlx_load [PStr (repo i)] []
         # (case mlx_load env [PStr (repo i)] [] of
              Inl e \<Rightarrow> [] | Inr mt \<Rightarrow> map Print loaded_notice)"
      using assms(1) that by (simp add: init_def init_with_known)
    then show ?thesis
      by (simp only: takeWhile_prints_load) auto
  qed
  have c5: "set (map Print capacity_warning)
            \<subseteq> set (takeWhile (\<lambda>e. \<not> is_load e) (fst (init env ''8bit'' max_tokens True)))"
    by (rule known [of _ "\<lparr>repo = ''mlx-community/Llama-3.3-70B-Instruct-8bit'',
                 size_gb = 70, quality = ''High quality, requires 64GB+ RAM''\<rparr>"])
       (simp_all add: MODELS_def)
  have c6: "set (map Print capacity_warning)
            \<subseteq> set (takeWhile (\<lambda>e. \<not> is_load e) (fst (init env ''4bit'' max_tokens True)))"
    by (rule known [of _ "\<lparr>repo = ''mlx-community/Llama-3.3-70B-Instruct-4bit'',
                 size_gb = 38, quality = ''Good quality, 4-bit quantization''\<rparr>"])
       (simp_all add: MODELS_def)
  show ?thesis
    unfolding before
    using c1 c2 c4 c5 c6 by (simp only: trace_True trace_False) simp
qed


theorem capacity_warning_iff_size_exceeds_16_witness:
  "check_mlx stub_env
   \<and> map_of tiny_table ''tiny'' = Some \<lparr>repo = ''example/tiny-4bit'', size_gb = 16, quality = ''Small''\<rparr>
   \<and> \<not> set (map Print capacity_warning)
          \<subseteq> set (takeWhile (\<lambda>e. \<not> is_load e) (fst (init_with tiny_table stub_env ''tiny'' 2048 True)))
   \<and> set (map Print capacity_warning) \<inter> set (fst (init_with tiny_table stub_env ''tiny'' 2048 True)) = {}
   \<and> map_of tiny_table ''big'' = Some \<lparr>repo = ''example/big-4bit'', size_gb = 17, quality = ''Large''\<rparr>
   \<and> set (map Print capacity_warning)
          \<subseteq> set (takeWhile (\<lambda>e. \<not> is_load e) (fst (init_with tiny_table stub_env ''big'' 2048 True)))
   \<and> set (map Print capacity_warning) \<inter> set (fst (init_with tiny_table stub_env ''big'' 2048 False)) = {}
   \<and> set (map Print capacity_warning)
          \<subseteq> set (takeWhile (\<lambda>e. \<not> is_load e) (fst (init stub_env ''8bit'' 2048 True)))"
  using capacity_warning_iff_size_exceeds_16
      [of stub_env tiny_table "''tiny''"
          "\<lparr>repo = ''example/tiny-4bit'', size_gb = 16, quality = ''Small''\<rparr>" 2048]
    capacity_warning_iff_size_exceeds_16
      [of stub_env tiny_table "''big''"
          "\<lparr>repo = ''example/big-4bit'', size_gb = 17, quality = ''Large''\<rparr>" 2048]
  by (simp add: check_mlx_def stub_env_def tiny_table_def)

text \<open>
  C7. The table has the three keys "4bit", "8bit", "3bit", each with the record the
  source gives it. For a key of the table the lookup succeeds, and the record it
  returns is the only one the table pairs with the key. The constructor uses that
  record and nothing else: with verbose off its only event is the load of the record's
  repository; with verbose on the banner, the warning and the loading notice are those
  of the record. The lookup itself contributes no event.
\<close>

theorem MODELS_lookup_total:
  assumes "k \<in> set (map fst MODELS)"
  shows "map fst MODELS = [''4bit'', ''8bit'', ''3bit'']
     \<and> map_of MODELS ''4bit'' =
         Some \<lparr>repo = ''mlx-community/Llama-3.3-70B-Instruct-4bit'', size_gb = 38,
               quality = ''Good quality, 4-bit quantization''\<rparr>
     \<and> map_of MODELS ''8bit'' =
         Some \<lparr>repo = ''mlx-community/Llama-3.3-70B-Instruct-8bit'', size_gb = 70,
               quality = ''High quality, requires 64GB+ RAM''\<rparr>
     \<and> map_of MODELS ''3bit'' =
         Some \<lparr>repo = ''mlx-community/Llama-3.3-70B-Instruct-3bit'', size_gb = 28,
               quality = ''Lower quality, fits 32GB RAM''\<rparr>
     \<and> map_of MODELS k \<noteq> None
     \<and> ((k, info) \<in> set MODELS \<longleftrightarrow> map_of MODELS k = Some info)
     \<and> (check_mlx env \<and> map_of MODELS k = Some info \<longrightarrow>
          fst (init env k max_tokens False) = [Call Mlx_load [PStr (repo info)] []]
        \<and> fst (init env k max_tokens True) =
            map Print (banner k info) @ map Print capacity_warning @ map Print (loading_notice info)
            @ [Call Mlx_load [PStr (repo info)] []]
            @ (case mlx_load env [PStr (repo info)] [] of
                 Inl e \<Rightarrow> [] | Inr mt \<Rightarrow> map Print loaded_notice))"
proof -
  have d: "distinct (map fst MODELS)"
    by (simp add: MODELS_def)
  have big: "16 < size_gb info" if "map_of MODELS k = Some info"
    using that by (auto simp: MODELS_def split: if_splits)
  have "map_of MODELS k \<noteq> None"
    using assms by (simp add: map_of_eq_None_iff)
  moreover have "(k, info) \<in> set MODELS \<longleftrightarrow> map_of MODELS k = Some info"
    using d by simp
  moreover have "fst (init env k max_tokens False) = [Call Mlx_load [PStr (repo info)] []]"
    if "check_mlx env" "map_of MODELS k = Some info"
    using that by (simp add: init_def init_with_known split: sum.splits)
  moreover have "fst (init env k max_tokens True) =
            map Print (banner k info) @ map Print capacity_warning @ map Print (loading_notice info)
            @ [Call Mlx_load [PStr (repo info)] []]
            @ (case mlx_load env [PStr (repo info)] [] of
                 Inl e \<Rightarrow> [] | Inr mt \<Rightarrow> map Print loaded_notice)"
    if "check_mlx env" "map_of MODELS k = Some info"
    using that big by (simp add: init_def init_with_known)
  moreover have "map_of MODELS ''4bit'' =
         Some \<lparr>repo = ''mlx-community/Llama-3.3-70B-Instruct-4bit'', size_gb = 38,
               quality = ''Good quality, 4-bit quantization''\<rparr>"
    by (simp add: MODELS_def)
  moreover have "map_of MODELS ''8bit'' =
         Some \<lparr>repo = ''mlx-community/Llama-3.3-70B-Instruct-8bit'', size_gb = 70,
               quality = ''High quality, requires 64GB+ RAM''\<rparr>"
    by (simp add: MODELS_def)
  moreover have "map_of MODELS ''3bit'' =
         Some \<lparr>repo = ''mlx-community/Llama-3.3-70B-Instruct-3bit'', size_gb = 28,
               quality = ''Lower quality, fits 32GB RAM''\<rparr>"
    by (simp add: MODELS_def)
  ultimately show ?thesis
    using keys_MODELS by blast
qed

theorem MODELS_lookup_total_witness:
  "''3bit'' \<in> set (map fst MODELS)
   \<and> map_of MODELS ''3bit'' =
         Some \<lparr>repo = ''mlx-community/Llama-3.3-70B-Instruct-3bit'', size_gb = 28,
               quality = ''Lower quality, fits 32GB RAM''\<rparr>
   \<and> check_mlx stub_env
   \<and> fst (init stub_env ''3bit'' 2048 False) =
       [Call Mlx_load [PStr ''mlx-community/Llama-3.3-70B-Instruct-3bit''] []]"
  using MODELS_lookup_total [of "''3bit''"
     "\<lparr>repo = ''mlx-community/Llama-3.3-70B-Instruct-3bit'', size_gb = 28,
               quality = ''Lower quality, fits 32GB RAM''\<rparr>" stub_env 2048]
  by (simp add: keys_MODELS check_mlx_def stub_env_def)

section \<open>The entry point\<close>

text \<open>
  C8, as the code has it. On the empty command line \<^verbatim>\<open>main\<close> prints its five lines
  of introduction and the two lines of guidance, performs no call (no session is
  constructed, nothing is loaded) and returns; the script ends with status 0. On a
  command line that is not empty and holds nothing but \<^verbatim>\<open>--confirm\<close> or its
  abbreviations \<^verbatim>\<open>--c\<close> to \<^verbatim>\<open>--confir\<close>, when the runtime is present and the load,
  the template and the generation succeed, \<^verbatim>\<open>main\<close> prints the introduction,
  constructs the session for "4bit" (verbose: banner, capacity warning and notices
  around the load of the 4-bit repository), runs one chat on the two example messages
  with the defaults 512, 0.7 and 0.9, and last prints \<^verbatim>\<open>\nResponse: \<close> followed by
  the response; the script ends with status 0.
\<close>

theorem main_by_command_line:
  "(argv = [] \<longrightarrow>
      main env argv =
        ([Print ([CHR 0x0A, CHR 0xE2, CHR 0x9A, CHR 0xA0, CHR 0xEF, CHR 0xB8, CHR 0x8F]
                   @ ''  Note: For 16GB RAM, MLX may struggle with 70B models.''),
          Print ''   The recommended approach is llama_transformer.py with GGUF models'',
          Print (''   which supports mmap for streaming from disk.'' @ [CHR 0x0A]),
          Print ''If you have 32GB+ unified memory, you can try:'',
          Print (''  python mlx_transformer.py'' @ [CHR 0x0A]),
          Print ''Run with --confirm if you have 32GB+ RAM to proceed.'',
          Print ''For 16GB RAM, use the main llama_transformer.py instead.''],
         Inr ())
    \<and> snd (script env argv) = 0)
   \<and> (argv \<noteq> []
      \<and> set argv \<subseteq> {''--confirm'', ''--confir'', ''--confi'', ''--conf'', ''--con'', ''--co'', ''--c''}
      \<and> check_mlx env
      \<and> mlx_load env [PStr ''mlx-community/Llama-3.3-70B-Instruct-4bit''] [] = Inr (m, t)
      \<and> apply_chat_template env
           [PTokenizer t,
            PMessages [[(''role'', ''system''), (''content'', ''You are a helpful assistant.'')],
                       [(''role'', ''user''), (''content'', ''What is Python?'')]]]
           [(''tokenize'', PBool False), (''add_generation_prompt'', PBool True)] = Inr prompt
      \<and> mlx_generate env [PModel m, PTokenizer t]
           [(''prompt'', PStr prompt), (''max_tokens'', PInt 512), (''temp'', PFloat (7 / 10)),
            (''top_p'', PFloat (9 / 10)), (''verbose'', PBool True)] = Inr response
      \<longrightarrow>
      main env argv =
        ([Print ([CHR 0x0A, CHR 0xE2, CHR 0x9A, CHR 0xA0, CHR 0xEF, CHR 0xB8, CHR 0x8F]
                   @ ''  Note: For 16GB RAM, MLX may struggle with 70B models.''),
          Print ''   The recommended approach is llama_transformer.py with GGUF models'',
          Print (''   which supports mmap for streaming from disk.'' @ [CHR 0x0A]),
          Print ''If you have 32GB+ unified memory, you can try:'',
          Print (''  python mlx_transformer.py'' @ [CHR 0x0A]),
          Print (CHR 0x0A # replicate 60 CHR ''=''),
          Print ''MLX Llama 3.3 70B Instruct - 4bit'',
          Print (replicate 60 CHR ''=''),
          Print ''Repository: mlx-community/Llama-3.3-70B-Instruct-4bit'',
          Print ''Size: ~38GB'',
          Print ''Quality: Good quality, 4-bit quantization'',
          Print (replicate 60 CHR ''='' @ [CHR 0x0A]),
          Print ([CHR 0xE2, CHR 0x9A, CHR 0xA0, CHR 0xEF, CHR 0xB8, CHR 0x8F]
                   @ ''  Warning: This model may not fit in 16GB RAM!''),
          Print ''   Consider using llama_transformer.py with GGUF models instead.'',
          Print (''   GGUF supports streaming from disk with mmap.'' @ [CHR 0x0A]),
          Print ''Loading model from: mlx-community/Llama-3.3-70B-Instruct-4bit'',
          Print ''This may take several minutes on first download...'',
          Call Mlx_load [PStr ''mlx-community/Llama-3.3-70B-Instruct-4bit''] [],
          Print ([CHR 0x0A, CHR 0xE2, CHR 0x9C, CHR 0x93] @ '' Model loaded successfully!''),
          Call Apply_chat_template
            [PTokenizer t,
             PMessages [[(''role'', ''system''), (''content'', ''You are a helpful assistant.'')],
                        [(''role'', ''user''), (''content'', ''What is Python?'')]]]
            [(''tokenize'', PBool False), (''add_generation_prompt'', PBool True)],
          Call Mlx_generate [PModel m, PTokenizer t]
            [(''prompt'', PStr prompt), (''max_tokens'', PInt 512),
             (''temp'', PFloat (7 / 10)), (''top_p'', PFloat (9 / 10)),
             (''verbose'', PBool True)],
          Print (CHR 0x0A # ''Response: '' @ response)],
         Inr ())
    \<and> snd (script env argv) = 0)"
proof -
  let ?spellings = "{''--confirm'', ''--confir'', ''--confi'', ''--conf'', ''--con'', ''--co'', ''--c''}"
  let ?msgs = "[[(''role'', ''system''), (''content'', ''You are a helpful assistant.'')],
                [(''role'', ''user''), (''content'', ''What is Python?'')]]"
  have size: "str_int 38 = ''38''"
    by (simp add: str_int_def str_nat.simps digit_char_def)
  have unconfirmed: "main env [] =
        (map Print (main_intro @ unconfirmed_notice), Inr ())"
    by (simp add: main_def parse_args_empty)
  have lookup: "map_of MODELS ''4bit'' =
      Some \<lparr>repo = ''mlx-community/Llama-3.3-70B-Instruct-4bit'', size_gb = 38,
            quality = ''Good quality, 4-bit quantization''\<rparr>"
    by (simp add: MODELS_def)
  have init4: "init env ''4bit'' init_default_max_tokens init_default_verbose =
        (map Print (banner ''4bit''
                     \<lparr>repo = ''mlx-community/Llama-3.3-70B-Instruct-4bit'', size_gb = 38,
                      quality = ''Good quality, 4-bit quantization''\<rparr>
                    @ capacity_warning
                    @ [''Loading model from: mlx-community/Llama-3.3-70B-Instruct-4bit'',
                       ''This may take several minutes on first download...''])
          @ Call Mlx_load [PStr ''mlx-community/Llama-3.3-70B-Instruct-4bit''] []
          # map Print loaded_notice,
         Inr \<lparr>verbose = True, model = m, tokenizer = t\<rparr>)"
    if "check_mlx env"
       "mlx_load env [PStr ''mlx-community/Llama-3.3-70B-Instruct-4bit''] [] = Inr (m, t)"
    using that lookup
    by (simp add: init_def init_with_def init_default_verbose_def loading_notice_def)
  have chat4: "chat env \<lparr>verbose = True, model = m, tokenizer = t\<rparr> example_messages
                 default_max_tokens default_temperature =
        ([Call Apply_chat_template [PTokenizer t, PMessages ?msgs]
                [(''tokenize'', PBool False), (''add_generation_prompt'', PBool True)],
          Call Mlx_generate [PModel m, PTokenizer t]
                [(''prompt'', PStr prompt), (''max_tokens'', PInt 512),
                 (''temp'', PFloat (7 / 10)), (''top_p'', PFloat (9 / 10)),
                 (''verbose'', PBool True)]], Inr response)"
    if "apply_chat_template env [PTokenizer t, PMessages ?msgs]
           [(''tokenize'', PBool False), (''add_generation_prompt'', PBool True)] = Inr prompt"
       "mlx_generate env [PModel m, PTokenizer t]
           [(''prompt'', PStr prompt), (''max_tokens'', PInt 512), (''temp'', PFloat (7 / 10)),
            (''top_p'', PFloat (9 / 10)), (''verbose'', PBool True)] = Inr response"
    using that
    by (simp add: chat_def generate_def Let_def default_top_p_def default_max_tokens_def
          default_temperature_def example_messages_def)
  have confirmed: "main env argv =
        (map Print main_intro
           @ (map Print (banner ''4bit''
                     \<lparr>repo = ''mlx-community/Llama-3.3-70B-Instruct-4bit'', size_gb = 38,
                      quality = ''Good quality, 4-bit quantization''\<rparr>
                    @ capacity_warning
                    @ [''Loading model from: mlx-community/Llama-3.3-70B-Instruct-4bit'',
                       ''This may take several minutes on first download...''])
              @ Call Mlx_load [PStr ''mlx-community/Llama-3.3-70B-Instruct-4bit''] []
              # map Print loaded_notice)
           @ [Call Apply_chat_template [PTokenizer t, PMessages ?msgs]
                [(''tokenize'', PBool False), (''add_generation_prompt'', PBool True)],
              Call Mlx_generate [PModel m, PTokenizer t]
                [(''prompt'', PStr prompt), (''max_tokens'', PInt 512),
                 (''temp'', PFloat (7 / 10)), (''top_p'', PFloat (9 / 10)),
                 (''verbose'', PBool True)],
              Print (CHR 0x0A # ''Response: '' @ response)],
         Inr ())"
    if "argv \<noteq> []" "set argv \<subseteq> ?spellings" "check_mlx env"
       "mlx_load env [PStr ''mlx-community/Llama-3.3-70B-Instruct-4bit''] [] = Inr (m, t)"
       "apply_chat_template env [PTokenizer t, PMessages ?msgs]
           [(''tokenize'', PBool False), (''add_generation_prompt'', PBool True)] = Inr prompt"
       "mlx_generate env [PModel m, PTokenizer t]
           [(''prompt'', PStr prompt), (''max_tokens'', PInt 512), (''temp'', PFloat (7 / 10)),
            (''top_p'', PFloat (9 / 10)), (''verbose'', PBool True)] = Inr response"
    using parse_args_confirm [OF that(1,2), of env] init4 [OF that(3,4)] chat4 [OF that(5,6)]
    by (simp add: main_def)
  have first: "argv = [] \<longrightarrow>
      main env argv =
        ([Print ([CHR 0x0A, CHR 0xE2, CHR 0x9A, CHR 0xA0, CHR 0xEF, CHR 0xB8, CHR 0x8F]
                   @ ''  Note: For 16GB RAM, MLX may struggle with 70B models.''),
          Print ''   The recommended approach is llama_transformer.py with GGUF models'',
          Print (''   which supports mmap for streaming from disk.'' @ [CHR 0x0A]),
          Print ''If you have 32GB+ unified memory, you can try:'',
          Print (''  python mlx_transformer.py'' @ [CHR 0x0A]),
          Print ''Run with --confirm if you have 32GB+ RAM to proceed.'',
          Print ''For 16GB RAM, use the main llama_transformer.py instead.''],
         Inr ())
    \<and> snd (script env argv) = 0"
    using unconfirmed
    by (simp add: script_def main_intro_def unconfirmed_notice_def warning_sign_def)
  have second: "main env argv = (evs, Inr ()) \<Longrightarrow> snd (script env argv) = 0" for evs
    by (simp add: script_def)
  show ?thesis
    apply (rule conjI [OF first])
    apply (rule impI)
    apply (elim conjE)
    subgoal premises prems
      using confirmed [OF prems] second [OF confirmed [OF prems]]
      by (simp add: main_intro_def banner_def capacity_warning_def loaded_notice_def
            warning_sign_def rule60_def size)
    done
qed

theorem main_by_command_line_witness:
  "snd (script stub_env []) = 0
   \<and> last (fst (main stub_env [])) =
        Print ''For 16GB RAM, use the main llama_transformer.py instead.''
   \<and> [''--confirm'', ''--conf''] \<noteq> []
   \<and> set [''--confirm'', ''--conf'']
        \<subseteq> {''--confirm'', ''--confir'', ''--confi'', ''--conf'', ''--con'', ''--co'', ''--c''}
   \<and> check_mlx stub_env
   \<and> mlx_load stub_env [PStr ''mlx-community/Llama-3.3-70B-Instruct-4bit''] [] = Inr (1, 2)
   \<and> apply_chat_template stub_env
           [PTokenizer 2,
            PMessages [[(''role'', ''system''), (''content'', ''You are a helpful assistant.'')],
                       [(''role'', ''user''), (''content'', ''What is Python?'')]]]
           [(''tokenize'', PBool False), (''add_generation_prompt'', PBool True)]
        = Inr ''systemYou are a helpful assistant.userWhat is Python?''
   \<and> mlx_generate stub_env [PModel 1, PTokenizer 2]
           [(''prompt'', PStr ''systemYou are a helpful assistant.userWhat is Python?''),
            (''max_tokens'', PInt 512), (''temp'', PFloat (7 / 10)),
            (''top_p'', PFloat (9 / 10)), (''verbose'', PBool True)]
        = Inr ''echo: systemYou are a helpful assistant.userWhat is Python?''
   \<and> snd (script stub_env [''--confirm'', ''--conf'']) = 0
   \<and> last (fst (main stub_env [''--confirm'', ''--conf''])) =
        Print (CHR 0x0A
                # ''Response: echo: systemYou are a helpful assistant.userWhat is Python?'')"
  using main_by_command_line [of "[]" stub_env]
    main_by_command_line [of "[''--confirm'', ''--conf'']" stub_env 1 2
       "''systemYou are a helpful assistant.userWhat is Python?''"
       "''echo: systemYou are a helpful assistant.userWhat is Python?''"]
  by (simp add: check_mlx_def stub_env_def stub_template_def stub_fragments_def)

text \<open>
  C8 as it is written fails on a command line with an unrecognised argument. With
  \<^verbatim>\<open>--bogus\<close> alone the flag is absent, yet after the introduction the parser leaves
  with status 2 and the guidance is not printed; with \<^verbatim>\<open>--confirm --bogus\<close> the flag
  is present, yet the same happens and no session is constructed.
\<close>

theorem main_unrecognised_argument_counterexample:
  "''--confirm'' \<notin> set [''--bogus'']
   \<and> script stub_env [''--bogus''] =
        ([Print ([CHR 0x0A, CHR 0xE2, CHR 0x9A, CHR 0xA0, CHR 0xEF, CHR 0xB8, CHR 0x8F]
                   @ ''  Note: For 16GB RAM, MLX may struggle with 70B models.''),
          Print ''   The recommended approach is llama_transformer.py with GGUF models'',
          Print (''   which supports mmap for streaming from disk.'' @ [CHR 0x0A]),
          Print ''If you have 32GB+ unified memory, you can try:'',
          Print (''  python mlx_transformer.py'' @ [CHR 0x0A])], 2)
   \<and> snd (script stub_env [''--bogus'']) \<noteq> 0
   \<and> ''--confirm'' \<in> set [''--confirm'', ''--bogus'']
   \<and> script stub_env [''--confirm'', ''--bogus''] =
        ([Print ([CHR 0x0A, CHR 0xE2, CHR 0x9A, CHR 0xA0, CHR 0xEF, CHR 0xB8, CHR 0x8F]
                   @ ''  Note: For 16GB RAM, MLX may struggle with 70B models.''),
          Print ''   The recommended approach is llama_transformer.py with GGUF models'',
          Print (''   which supports mmap for streaming from disk.'' @ [CHR 0x0A]),
          Print ''If you have 32GB+ unified memory, you can try:'',
          Print (''  python mlx_transformer.py'' @ [CHR 0x0A])], 2)"
  by (simp add: script_def main_def parse_args_def is_confirm_def is_abbrev_def
        unrecognised_def main_intro_def warning_sign_def)

end
